theory Spec2Isabelle
  imports Main
begin

section \<open>Numbers\<close>

text \<open>
  A JavaScript number is an IEEE 754 double.  The numbers of this program count pages
  and rows, so the model keeps the doubles whose value is an integer: an \<open>int\<close>
  stands for the finite double of that value, and arithmetic rounds its exact result
  to the nearest double, ties to the even significand, as the machine does.

  \<open>ulp_from u m\<close> doubles \<open>u\<close> until \<open>m div u\<close> fits the 53 bits of a
  significand: started at 1 it gives the distance between the doubles around the
  magnitude \<open>m\<close>.
\<close>

function ulp_from :: "int \<Rightarrow> int \<Rightarrow> int" where
  "ulp_from u m = (if m div u < 2 ^ 53 then u else ulp_from (2 * u) m)"
  by pat_completeness auto
termination
proof (relation "measure (\<lambda>(u, m). nat (m div u))")
  show "wf (measure (\<lambda>(u, m). nat (m div u)))" by simp
next
  fix u m :: int
  assume "\<not> m div u < 2 ^ 53"
  then have pos: "0 < m div u" by simp
  have "m div (2 * u) = m div u div 2"
    by (simp add: mult.commute zdiv_zmult2_eq)
  with pos have "m div (2 * u) < m div u" by simp
  with pos show "((2 * u, m), (u, m)) \<in> measure (\<lambda>(u, m). nat (m div u))"
    by simp
qed

declare ulp_from.simps [simp del]

definition round_magnitude :: "int \<Rightarrow> int" where
  "round_magnitude m =
     (let u = ulp_from 1 m; q = m div u; r = m mod u
      in if 2 * r < u \<or> (2 * r = u \<and> even q) then q * u else (q + 1) * u)"

definition round_to_double :: "int \<Rightarrow> int" where
  "round_to_double x = (if x < 0 then - round_magnitude (- x) else round_magnitude x)"

text \<open>
  A rounded result of magnitude \<open>2 ^ 1024\<close> or more is an infinity.
\<close>

datatype number = Finite int | Infinity | NegInfinity

definition overflow :: "int \<Rightarrow> number" where
  "overflow y =
     (if 2 ^ 1024 \<le> y then Infinity
      else if y \<le> - (2 ^ 1024) then NegInfinity
      else Finite y)"

text \<open>
  \<open>a + b\<close> and \<open>a - b\<close> as the program uses them, with \<open>b = 1\<close>: adding 1
  to a finite double, or taking 1 from it, stays below the threshold of overflow, so
  the result is finite.  \<open>a * b\<close> can overflow.
\<close>

definition js_plus :: "int \<Rightarrow> int \<Rightarrow> int" where
  "js_plus a b = round_to_double (a + b)"

definition js_minus :: "int \<Rightarrow> int \<Rightarrow> int" where
  "js_minus a b = round_to_double (a - b)"

definition js_times :: "int \<Rightarrow> int \<Rightarrow> number" where
  "js_times a b = overflow (round_to_double (a * b))"

section \<open>The generated HTTP client (\<open>ItemsService\<close>)\<close>

text \<open>
  Every method of \<open>ItemsService\<close> builds one request description and hands it to
  \<open>__request\<close>; the model keeps that description as a record, field for field.
  Strings are \<open>string\<close>.
\<close>

record ItemCreate =
  title :: string
  description :: string
  type :: string

record LogCreate =
  item_id :: string
  message :: string

datatype request_body = ItemCreateBody ItemCreate | LogCreateBody LogCreate

record request =
  http_method :: string
  url :: string
  path :: "(string \<times> string) list"
  query :: "(string \<times> number option) list"
  body :: "request_body option"
  mediaType :: "string option"
  errors :: "(nat \<times> string) list"

text \<open>\<open>ItemsReadItemsData\<close>: both fields are optional (\<open>data = {}\<close> by default).\<close>

record ItemsReadItemsData =
  skip :: "number option"
  limit :: "number option"

definition readItems :: "ItemsReadItemsData \<Rightarrow> request" where
  "readItems data =
     \<lparr>http_method = ''GET'', url = ''/api/v1/items/'', path = [],
      query = [(''skip'', skip data), (''limit'', limit data)],
      body = None, mediaType = None, errors = [(422, ''Validation Error'')]\<rparr>"

definition createItem :: "ItemCreate \<Rightarrow> request" where
  "createItem requestBody =
     \<lparr>http_method = ''POST'', url = ''/api/v1/items/'', path = [], query = [],
      body = Some (ItemCreateBody requestBody), mediaType = Some ''application/json'',
      errors = [(422, ''Validation Error'')]\<rparr>"

definition moveItem :: "string \<Rightarrow> string \<Rightarrow> request" where
  "moveItem itemId newLocation =
     \<lparr>http_method = ''PUT'', url = ''/api/v1/items/move/{item_id}_{new_location}'',
      path = [(''new_location'', newLocation), (''item_id'', itemId)], query = [],
      body = None, mediaType = None, errors = [(422, ''Validation Error'')]\<rparr>"

definition createItemLog :: "LogCreate \<Rightarrow> request" where
  "createItemLog requestBody =
     \<lparr>http_method = ''POST'', url = ''/api/v1/items/logs/{item_id}'', path = [], query = [],
      body = Some (LogCreateBody requestBody), mediaType = Some ''application/json'',
      errors = [(422, ''Validation Error'')]\<rparr>"

section \<open>The items route: search parameter and query options\<close>

text \<open>
  The router hands \<open>validateSearch\<close> the search part of the URL as an object whose
  values are JSON values (numbers being the integers, as for page numbers above).
  \<open>z.object({ page: z.number().catch(1) })\<close> keeps the key \<open>page\<close> only: a
  number is kept, anything else (a missing key included) becomes 1.
\<close>

datatype json =
    JNull
  | JBool bool
  | JNumber int
  | JString string
  | JArray "json list"
  | JObject "(string \<times> json) list"

type_synonym search = "string \<rightharpoonup> json"

record items_search =
  page :: int

definition itemsSearchSchema_parse :: "search \<Rightarrow> items_search" where
  "itemsSearchSchema_parse s =
     \<lparr>page = (case s ''page'' of Some (JNumber n) \<Rightarrow> n | _ \<Rightarrow> 1)\<rparr>"

definition validateSearch :: "search \<Rightarrow> items_search" where
  "validateSearch s = itemsSearchSchema_parse s"

text \<open>
  \<open>setPage\<close> navigates with \<open>search: (prev) => ({ ...prev, page })\<close>: the key
  \<open>page\<close> is overwritten, every other key is kept.
\<close>

definition setPage :: "int \<Rightarrow> search \<Rightarrow> search" where
  "setPage p prev = prev(''page'' \<mapsto> JNumber p)"

definition PER_PAGE :: int where
  "PER_PAGE = 5"

text \<open>
  A query key is an array of strings and objects; \<open>{ page }\<close> is the object with
  the one key \<open>page\<close>.
\<close>

datatype key_part = KString string | KObject search

type_synonym query_key = "key_part list"

text \<open>
  \<open>queryFn\<close> is a thunk; the model records the request that running it issues.
\<close>

record query_options =
  queryFn :: request
  queryKey :: query_key

definition getItemsQueryOptions :: "int \<Rightarrow> query_options" where
  "getItemsQueryOptions p =
     \<lparr>queryFn = readItems \<lparr>skip = Some (js_times (js_minus p 1) PER_PAGE),
                           limit = Some (Finite PER_PAGE)\<rparr>,
      queryKey = [KString ''items'', KObject [''page'' \<mapsto> JNumber p]]\<rparr>"

section \<open>The items table\<close>

record ItemPublic =
  item_public_id :: string
  item_title :: string
  item_description :: "string option"
  location_id :: "string option"
  item_type :: "string option"
  status :: "string option"

record ItemsPublic =
  data :: "ItemPublic list"
  count :: int

text \<open>
  What \<open>useQuery\<close> returns to \<open>ItemsTable\<close>: \<open>items\<close> is \<open>undefined\<close>
  (\<open>None\<close>) until some data is there.
\<close>

record items_query_result =
  items :: "ItemsPublic option"
  isPending :: bool
  isPlaceholderData :: bool

text \<open>
  \<open>!isPlaceholderData && items?.data.length === PER_PAGE\<close>: with \<open>items\<close>
  undefined the optional chain gives \<open>undefined\<close>, which is not \<open>=== 5\<close>.
\<close>

definition hasNextPage :: "items_query_result \<Rightarrow> bool" where
  "hasNextPage r =
     (\<not> isPlaceholderData r \<and>
      (case items r of None \<Rightarrow> False | Some i \<Rightarrow> int (length (data i)) = PER_PAGE))"

definition hasPreviousPage :: "int \<Rightarrow> bool" where
  "hasPreviousPage p = (p > 1)"

text \<open>
  The body of the effect: the list of \<open>prefetchQuery\<close> calls it makes.
\<close>

definition prefetch_effect :: "int \<Rightarrow> bool \<Rightarrow> query_options list" where
  "prefetch_effect p hasNext =
     (if hasNext then [getItemsQueryOptions (js_plus p 1)] else [])"

text \<open>
  \<open>useEffect(body, [page, queryClient, hasNextPage])\<close>: after a render the body runs
  on the first render (\<open>None\<close>: no previous dependencies) and whenever a dependency
  differs from the previous render's.  \<open>queryClient\<close> is the same object on every
  render, so the dependencies that can change are \<open>page\<close> and \<open>hasNextPage\<close>.
\<close>

definition ItemsTable_useEffect ::
  "(int \<times> bool) option \<Rightarrow> int \<Rightarrow> items_query_result \<Rightarrow> query_options list" where
  "ItemsTable_useEffect prev p r =
     (if prev = Some (p, hasNextPage r) then [] else prefetch_effect p (hasNextPage r))"

text \<open>
  One render of \<open>ItemsTable\<close>: the query it subscribes to, the two pagination flags
  handed to the footer, and the prefetches of its effect.
\<close>

record items_table_render =
  used_query :: query_options
  footer_hasNextPage :: bool
  footer_hasPreviousPage :: bool
  prefetched :: "query_options list"

definition ItemsTable ::
  "(int \<times> bool) option \<Rightarrow> items_search \<Rightarrow> items_query_result \<Rightarrow> items_table_render" where
  "ItemsTable prev s r =
     \<lparr>used_query = getItemsQueryOptions (page s),
      footer_hasNextPage = hasNextPage r,
      footer_hasPreviousPage = hasPreviousPage (page s),
      prefetched = ItemsTable_useEffect prev (page s) r\<rparr>"

section \<open>Mutations\<close>

text \<open>
  What the components do to the outside is recorded in the order it happens: the HTTP
  requests issued, the query keys passed to \<open>queryClient.invalidateQueries\<close>, the
  toasts shown, and the calls of \<open>handleError\<close> and \<open>console.log\<close>.
\<close>

datatype error = ApiError nat | Error string

record io =
  calls :: "request list"
  invalidated :: "query_key list"
  toasts :: "(string \<times> string \<times> string) list"
  handled :: "error list"
  console :: "error list"

definition invalidateQueries :: "query_key \<Rightarrow> 'a io_scheme \<Rightarrow> 'a io_scheme" where
  "invalidateQueries k w = w\<lparr>invalidated := invalidated w @ [k]\<rparr>"

text \<open>
  Modelled from the spec: \<open>useCustomToast\<close> (in \<open>../../hooks\<close>) is not among
  the sources.  The notification surface is a call with title, description and
  severity that displays a transient message, fire-and-forget: the call is recorded
  with its three arguments.
\<close>

definition showToast :: "string \<Rightarrow> string \<Rightarrow> string \<Rightarrow> 'a io_scheme \<Rightarrow> 'a io_scheme" where
  "showToast t d s w = w\<lparr>toasts := toasts w @ [(t, d, s)]\<rparr>"

text \<open>
  Modelled from the spec: \<open>handleError\<close> (in \<open>../../utils\<close>) is not among the
  sources.  On failure the error is mapped to a user-visible message and cached data
  is left untouched: the call is recorded with the error it was given, and it issues no
  request and invalidates no key.
\<close>

definition handleError :: "error \<Rightarrow> 'a io_scheme \<Rightarrow> 'a io_scheme" where
  "handleError err w = w\<lparr>handled := handled w @ [err]\<rparr>"

definition console_log :: "error \<Rightarrow> 'a io_scheme \<Rightarrow> 'a io_scheme" where
  "console_log err w = w\<lparr>console := console w @ [err]\<rparr>"

text \<open>
  The options a component passes to \<open>useMutation\<close> of the query library, and the
  library's contract for running them.  \<open>mutationFn\<close> reads the
  component's state as of the render that built it and returns a promise: one that is
  already rejected, or the pending promise of a request.  A callback the component
  leaves out is the identity.

  \<open>mutate\<close> is the part of \<open>mutation.mutate(variables)\<close> up to the first
  suspension: it calls \<open>mutationFn\<close>; a request is issued and left pending, while a
  promise rejected on the spot settles as a failure with no request made.  \<open>mutate\<close>
  returns nothing to its caller.  \<open>settle\<close> is what runs when the pending request
  comes back: \<open>onSuccess\<close> or \<open>onError\<close>, then \<open>onSettled\<close>.
\<close>

datatype promise = Rejected error | Requested request

datatype outcome = Fulfilled | Failed error

record ('v, 'w) mutation_options =
  mutationFn :: "'w \<Rightarrow> 'v \<Rightarrow> promise"
  onSuccess :: "'w \<Rightarrow> 'w"
  onError :: "error \<Rightarrow> 'w \<Rightarrow> 'w"
  onSettled :: "'w \<Rightarrow> 'w"

definition settle :: "('v, 'w) mutation_options \<Rightarrow> outcome \<Rightarrow> 'w \<Rightarrow> 'w" where
  "settle m out w =
     (case out of
        Fulfilled \<Rightarrow> onSettled m (onSuccess m w)
      | Failed err \<Rightarrow> onSettled m (onError m err w))"

definition mutate ::
  "('v, 'a io_scheme) mutation_options \<Rightarrow> 'v \<Rightarrow> 'a io_scheme \<Rightarrow> 'a io_scheme" where
  "mutate m v w =
     (case mutationFn m w v of
        Rejected err \<Rightarrow> settle m (Failed err) w
      | Requested r \<Rightarrow> w\<lparr>calls := calls w @ [r]\<rparr>)"

section \<open>The Add Item form\<close>

text \<open>
  The state of the form and of the modal that hosts it: the field values, the error of
  the title field (\<open>errors.title?.message\<close>), \<open>formState.isSubmitting\<close>, and the
  \<open>isOpen\<close> of the \<open>useDisclosure\<close> in \<open>Navbar\<close>, whose \<open>onClose\<close> is the
  prop \<open>AddItem\<close> receives.
\<close>

record AddItem_state = io +
  form_values :: ItemCreate
  title_error :: "string option"
  isSubmitting :: bool
  isOpen :: bool

definition defaultValues :: ItemCreate where
  "defaultValues = \<lparr>title = '''', description = '''', type = ''other''\<rparr>"

definition reset :: "AddItem_state \<Rightarrow> AddItem_state" where
  "reset w = w\<lparr>form_values := defaultValues, title_error := None\<rparr>"

definition onClose :: "AddItem_state \<Rightarrow> AddItem_state" where
  "onClose w = w\<lparr>isOpen := False\<rparr>"

definition AddItem_mutation :: "(ItemCreate, AddItem_state) mutation_options" where
  "AddItem_mutation =
     \<lparr>mutationFn = (\<lambda>w formData. Requested (createItem formData)),
      onSuccess = (\<lambda>w. onClose (reset
                    (showToast ''Success!'' ''Item created successfully.'' ''success'' w))),
      onError = (\<lambda>err w. handleError err w),
      onSettled = (\<lambda>w. invalidateQueries [KString ''items''] w)\<rparr>"

definition onSubmit :: "ItemCreate \<Rightarrow> AddItem_state \<Rightarrow> AddItem_state" where
  "onSubmit formData w = mutate AddItem_mutation formData w"

text \<open>
  \<open>register("title", { required: "Title is required." })\<close>: the rule fails on the
  empty string.  The other two fields are registered with no rule.
\<close>

definition validate_title :: "ItemCreate \<Rightarrow> string option" where
  "validate_title v = (if title v = '''' then Some ''Title is required.'' else None)"

text \<open>
  \<open>handleSubmit(onValid)\<close> of the form library: \<open>isSubmitting\<close> is set, the rules
  are run, and either the errors are stored and \<open>onValid\<close> is not called, or the
  errors are cleared and \<open>onValid\<close> is called with the values; \<open>isSubmitting\<close> is
  cleared once what \<open>onValid\<close> returned has been awaited.  \<open>onSubmit\<close> calls
  \<open>mutation.mutate\<close> and returns nothing, so there is nothing to await but the call
  itself: the flag is cleared while the request is still pending.
\<close>

definition handleSubmit ::
  "(ItemCreate \<Rightarrow> AddItem_state \<Rightarrow> AddItem_state) \<Rightarrow> AddItem_state \<Rightarrow> AddItem_state" where
  "handleSubmit onValid w =
     (let w1 = w\<lparr>isSubmitting := True\<rparr>;
          w2 = (case validate_title (form_values w1) of
                  Some msg \<Rightarrow> w1\<lparr>title_error := Some msg\<rparr>
                | None \<Rightarrow> onValid (form_values w1) (w1\<lparr>title_error := None\<rparr>))
      in w2\<lparr>isSubmitting := False\<rparr>)"

text \<open>\<open><ModalContent as="form" onSubmit={handleSubmit(onSubmit)}>\<close>\<close>

definition form_onSubmit :: "AddItem_state \<Rightarrow> AddItem_state" where
  "form_onSubmit w = handleSubmit onSubmit w"

text \<open>
  \<open>useForm({ mode: "onBlur" })\<close>: when a registered field loses focus its rules
  are run, and its error is set or cleared.
\<close>

definition title_onBlur :: "AddItem_state \<Rightarrow> AddItem_state" where
  "title_onBlur w = w\<lparr>title_error := validate_title (form_values w)\<rparr>"

text \<open>
  The title input sits in \<open><FormControl isRequired>\<close>, which gives it the
  \<open>required\<close> attribute, and the form has no \<open>noValidate\<close>.  When the user
  submits the form, the browser checks the field first: with an empty title it reports
  the field itself and fires no submit event, so \<open>handleSubmit(onSubmit)\<close> does not
  run; otherwise the submit event reaches the form's \<open>onSubmit\<close>.
\<close>

definition form_requestSubmit :: "AddItem_state \<Rightarrow> AddItem_state" where
  "form_requestSubmit w = (if title (form_values w) = '''' then w else form_onSubmit w)"

text \<open>
  \<open><Button type="submit" isLoading={isSubmitting}>\<close>: a loading button is disabled,
  so a click on it submits the form only while \<open>isSubmitting\<close> is false.
\<close>

definition Save_click :: "AddItem_state \<Rightarrow> AddItem_state" where
  "Save_click w = (if isSubmitting w then w else form_requestSubmit w)"

section \<open>Item details: moving an item and the log composer\<close>

record ItemDetails_state = io +
  newLocation :: "string option"
  newLogMessage :: "string option"

text \<open>
  \<open>!newLogMessage\<close> holds for \<open>null\<close> and for the empty string.
\<close>

definition sendLogMutation :: "string \<Rightarrow> (unit, ItemDetails_state) mutation_options" where
  "sendLogMutation item =
     \<lparr>mutationFn = (\<lambda>w _.
        (case newLogMessage w of
           None \<Rightarrow> Rejected (Error ''No log message provided'')
         | Some m \<Rightarrow>
             if m = '''' then Rejected (Error ''No log message provided'')
             else Requested (createItemLog \<lparr>item_id = item, message = m\<rparr>))),
      onSuccess = (\<lambda>w.
        (showToast ''Success!'' ''Log created successfully.'' ''success''
          (invalidateQueries [KString ''item_logs'', KString item] w))
        \<lparr>newLogMessage := Some ''''\<rparr>),
      onError = (\<lambda>err w. handleError err (console_log err w)),
      onSettled = (\<lambda>w. w)\<rparr>"

text \<open>
  \<open>currentPage\<close> is what \<open>Route.useSearch()\<close> returns in \<open>ItemDetails\<close>: the
  search object of the route as a whole, not its \<open>page\<close> alone.  It goes into the
  invalidated key as it is.
\<close>

definition moveItemMutation ::
  "string \<Rightarrow> search \<Rightarrow> (string, ItemDetails_state) mutation_options" where
  "moveItemMutation item currentPage =
     \<lparr>mutationFn = (\<lambda>w newLoc. Requested (moveItem item newLoc)),
      onSuccess = (\<lambda>w.
        invalidateQueries [KString ''items'', KObject currentPage]
          (invalidateQueries [KString ''item_logs'', KString item] w)),
      onError = (\<lambda>err w. handleError err w),
      onSettled = (\<lambda>w. w)\<rparr>"

record keyboard_event =
  key :: string
  ctrlKey :: bool
  shiftKey :: bool
  altKey :: bool
  metaKey :: bool

definition Select_onChange :: "string \<Rightarrow> ItemDetails_state \<Rightarrow> ItemDetails_state" where
  "Select_onChange v w = w\<lparr>newLocation := Some v\<rparr>"

text \<open>\<open>newLocation && moveItemMutation.mutate(newLocation)\<close>\<close>

definition MoveItem_onClick ::
  "string \<Rightarrow> search \<Rightarrow> ItemDetails_state \<Rightarrow> ItemDetails_state" where
  "MoveItem_onClick item currentPage w =
     (case newLocation w of
        None \<Rightarrow> w
      | Some l \<Rightarrow> if l = '''' then w else mutate (moveItemMutation item currentPage) l w)"

definition Textarea_onChange :: "string \<Rightarrow> ItemDetails_state \<Rightarrow> ItemDetails_state" where
  "Textarea_onChange v w = w\<lparr>newLogMessage := Some v\<rparr>"

definition Textarea_onKeyDown ::
  "string \<Rightarrow> keyboard_event \<Rightarrow> ItemDetails_state \<Rightarrow> ItemDetails_state" where
  "Textarea_onKeyDown item e w =
     (if key e = ''Enter'' \<and> ctrlKey e then mutate (sendLogMutation item) () w else w)"

definition SendLog_onClick :: "string \<Rightarrow> ItemDetails_state \<Rightarrow> ItemDetails_state" where
  "SendLog_onClick item w = mutate (sendLogMutation item) () w"

section \<open>Example states\<close>

text \<open>
  Concrete inputs on which the theorems below are run: a fetched page of \<open>n\<close> rows,
  an item-details view with a location chosen and a log message typed, an open Add Item
  form filled in, and the key event of Ctrl+Enter.
\<close>

definition item0 :: ItemPublic where
  "item0 = \<lparr>item_public_id = ''i0'', item_title = ''flask'', item_description = None,
            location_id = None, item_type = None, status = None\<rparr>"

definition fetched :: "nat \<Rightarrow> items_query_result" where
  "fetched n = \<lparr>items = Some \<lparr>data = replicate n item0, count = int n\<rparr>,
               isPending = False, isPlaceholderData = False\<rparr>"

definition details0 :: ItemDetails_state where
  "details0 = \<lparr>calls = [], invalidated = [], toasts = [], handled = [], console = [],
               newLocation = Some ''shelf-2'', newLogMessage = Some ''cleaned''\<rparr>"

definition form0 :: AddItem_state where
  "form0 = \<lparr>calls = [], invalidated = [], toasts = [], handled = [], console = [],
            form_values = \<lparr>title = ''flask'', description = ''50 ml'', type = ''glass''\<rparr>,
            title_error = None, isSubmitting = False, isOpen = True\<rparr>"

definition ctrl_enter :: keyboard_event where
  "ctrl_enter = \<lparr>key = ''Enter'', ctrlKey = True, shiftKey = False, altKey = False,
                 metaKey = False\<rparr>"

section \<open>Arithmetic that is exact\<close>

text \<open>
  Up to \<open>2 ^ 53 = 9007199254740992\<close> in magnitude every integer is a double, so a
  result in that range is not rounded.
\<close>

lemma ulp_from_small: "m < 9007199254740992 \<Longrightarrow> ulp_from 1 m = 1"
  by (simp add: ulp_from.simps [of 1])

lemma round_magnitude_exact:
  assumes "0 \<le> m" and "m \<le> 9007199254740992"
  shows "round_magnitude m = m"
proof (cases "m = 9007199254740992")
  case True
  then show ?thesis
    by (simp add: round_magnitude_def ulp_from.simps [of 1] ulp_from.simps [of 2])
next
  case False
  with assms have "m < 9007199254740992" by simp
  then show ?thesis
    by (simp add: round_magnitude_def ulp_from_small)
qed

lemma round_to_double_exact:
  assumes "\<bar>x\<bar> \<le> 9007199254740992"
  shows "round_to_double x = x"
proof (cases "x < 0")
  case True
  with assms have "round_magnitude (- x) = - x"
    by (intro round_magnitude_exact) simp_all
  with True show ?thesis by (simp add: round_to_double_def)
next
  case False
  with assms have "round_magnitude x = x"
    by (intro round_magnitude_exact) simp_all
  with False show ?thesis by (simp add: round_to_double_def)
qed

lemma js_plus_exact: "\<bar>a + b\<bar> \<le> 9007199254740992 \<Longrightarrow> js_plus a b = a + b"
  by (simp add: js_plus_def round_to_double_exact)

lemma js_minus_exact: "\<bar>a - b\<bar> \<le> 9007199254740992 \<Longrightarrow> js_minus a b = a - b"
  by (simp add: js_minus_def round_to_double_exact)

lemma js_times_exact:
  assumes "\<bar>a * b\<bar> \<le> 9007199254740992"
  shows "js_times a b = Finite (a * b)"
proof -
  have "round_to_double (a * b) = a * b"
    using assms by (rule round_to_double_exact)
  moreover have "\<not> 2 ^ 1024 \<le> a * b" and "\<not> a * b \<le> - (2 ^ 1024)"
    using assms by simp_all
  ultimately show ?thesis by (simp add: js_times_def overflow_def)
qed

text \<open>
  Beyond that range results are rounded: \<open>2 ^ 53 + 1\<close> is not a double and goes to
  \<open>2 ^ 53\<close>, and \<open>2 ^ 53 + 3\<close> goes up to \<open>2 ^ 53 + 4\<close>.
\<close>

lemma round_to_double_examples:
  "round_to_double 9007199254740993 = 9007199254740992"
  "round_to_double 9007199254740995 = 9007199254740996"
  "round_to_double (- 9007199254740995) = - 9007199254740996"
  by (simp_all add: round_to_double_def round_magnitude_def
      ulp_from.simps [of 1] ulp_from.simps [of 2])

section \<open>Pagination\<close>

text \<open>
  C1.  On every render of the items table, the \<open>hasNextPage\<close> handed to the
  pagination footer is true if and only if the displayed data is not placeholder data
  and the fetched page holds exactly 5 items, the page size; in particular it is false
  for a fetched page of 3 items.
\<close>

theorem hasNextPage_iff:
  "(footer_hasNextPage (ItemsTable prev s r) \<longleftrightarrow>
      \<not> isPlaceholderData r \<and> (\<exists>i. items r = Some i \<and> length (data i) = 5)) \<and>
   (\<forall>i. items r = Some i \<and> length (data i) = 3 \<longrightarrow> \<not> footer_hasNextPage (ItemsTable prev s r))"
  by (auto simp: ItemsTable_def hasNextPage_def PER_PAGE_def split: option.splits)

theorem hasNextPage_iff_witness:
  "\<not> footer_hasNextPage (ItemsTable None \<lparr>page = 1\<rparr> (fetched 3)) \<and>
   footer_hasNextPage (ItemsTable None \<lparr>page = 1\<rparr> (fetched 5))"
  using hasNextPage_iff [of None "\<lparr>page = 1\<rparr>" "fetched 3"]
        hasNextPage_iff [of None "\<lparr>page = 1\<rparr>" "fetched 5"]
  by (simp add: fetched_def)

text \<open>
  C2, as amended.  For every page number \<open>p\<close> from 1 to 1801439850948199, the
  query the items table subscribes to at page \<open>p\<close> is the list-items request
  \<open>GET /api/v1/items/\<close> with \<open>skip = (p - 1) * 5\<close> and \<open>limit = 5\<close>.  The
  bound is where \<open>(p - 1) * 5\<close> stays below \<open>2 ^ 53\<close>.
\<close>

theorem page_query_skip_limit:
  assumes "1 \<le> p" and "p \<le> 1801439850948199"
  shows "queryFn (used_query (ItemsTable prev \<lparr>page = p\<rparr> r)) =
           readItems \<lparr>skip = Some (Finite ((p - 1) * 5)), limit = Some (Finite 5)\<rparr> \<and>
         http_method (queryFn (used_query (ItemsTable prev \<lparr>page = p\<rparr> r))) = ''GET'' \<and>
         url (queryFn (used_query (ItemsTable prev \<lparr>page = p\<rparr> r))) = ''/api/v1/items/'' \<and>
         query (queryFn (used_query (ItemsTable prev \<lparr>page = p\<rparr> r))) =
           [(''skip'', Some (Finite ((p - 1) * 5))), (''limit'', Some (Finite 5))]"
proof -
  have "js_minus p 1 = p - 1"
    using assms by (intro js_minus_exact) simp
  moreover have "js_times (p - 1) 5 = Finite ((p - 1) * 5)"
    using assms by (intro js_times_exact) simp
  ultimately show ?thesis
    by (simp add: ItemsTable_def getItemsQueryOptions_def readItems_def PER_PAGE_def)
qed

theorem page_query_skip_limit_witness:
  "(1::int) \<le> 2 \<and> (2::int) \<le> 1801439850948199 \<and>
   query (queryFn (used_query (ItemsTable None \<lparr>page = 2\<rparr> (fetched 5)))) =
     [(''skip'', Some (Finite 5)), (''limit'', Some (Finite 5))]"
proof -
  have h: "(1::int) \<le> 2" and b: "(2::int) \<le> 1801439850948199" by simp_all
  have "query (queryFn (used_query (ItemsTable None \<lparr>page = 2\<rparr> (fetched 5)))) =
          [(''skip'', Some (Finite ((2 - 1) * 5))), (''limit'', Some (Finite 5))]"
    using page_query_skip_limit [OF h b, where prev = None and r = "fetched 5"] by blast
  then show ?thesis by simp
qed

text \<open>
  C2 as first stated covers every page number from 1 on.  At page 1801439850948200
  the exact \<open>(p - 1) * 5\<close> is 9007199254740995, which is not a double: the request
  carries the neighbouring double 9007199254740996 as \<open>skip\<close>.
\<close>

theorem page_query_skip_rounded_counterexample:
  "query (queryFn (used_query
      (ItemsTable None \<lparr>page = 1801439850948200\<rparr> (fetched 5)))) =
     [(''skip'', Some (Finite 9007199254740996)), (''limit'', Some (Finite 5))] \<and>
   (1801439850948200 - 1) * 5 \<noteq> (9007199254740996 :: int)"
proof -
  have "js_minus 1801439850948200 1 = 1801439850948199"
    by (simp add: js_minus_exact)
  moreover have "js_times 1801439850948199 5 = Finite 9007199254740996"
    by (simp add: js_times_def overflow_def round_to_double_examples)
  ultimately show ?thesis
    by (simp add: ItemsTable_def getItemsQueryOptions_def readItems_def PER_PAGE_def)
qed

text \<open>
  C7, as amended.  After a render of the items table at an integer page of magnitude
  below \<open>2 ^ 53\<close>, the next page (\<open>page + 1\<close>) is prefetched exactly when
  \<open>hasNextPage\<close> is true and the effect runs, that is on the first render or when
  \<open>page\<close> or \<open>hasNextPage\<close> differs from the previous render's; in every other
  case nothing is prefetched.
\<close>

theorem prefetch_iff_hasNextPage:
  assumes "\<bar>page s\<bar> < 9007199254740992"
  shows "prefetched (ItemsTable prev s r) =
           (if hasNextPage r \<and> prev \<noteq> Some (page s, True)
            then [getItemsQueryOptions (page s + 1)] else [])"
proof -
  have "js_plus (page s) 1 = page s + 1"
    using assms by (intro js_plus_exact) simp
  then show ?thesis
    by (auto simp: ItemsTable_def ItemsTable_useEffect_def prefetch_effect_def)
qed

theorem prefetch_iff_hasNextPage_witness:
  "\<bar>page \<lparr>page = 1\<rparr>\<bar> < 9007199254740992 \<and>
   prefetched (ItemsTable None \<lparr>page = 1\<rparr> (fetched 5)) = [getItemsQueryOptions 2] \<and>
   prefetched (ItemsTable (Some (1, True)) \<lparr>page = 1\<rparr> (fetched 5)) = []"
proof -
  have h: "\<bar>page \<lparr>page = 1\<rparr>\<bar> < 9007199254740992" by simp
  show ?thesis
    using h prefetch_iff_hasNextPage [OF h, where r = "fetched 5" and prev = None]
          prefetch_iff_hasNextPage [OF h, where r = "fetched 5" and prev = "Some (1, True)"]
    by (simp add: fetched_def hasNextPage_def PER_PAGE_def)
qed

text \<open>
  C7 as first stated asks for a prefetch on every successful render.  The first render
  of page 1 with a fetched page of 3 items prefetches nothing: the effect is guarded by
  \<open>if (hasNextPage)\<close>.
\<close>

theorem prefetch_short_page_counterexample:
  "prefetched (ItemsTable None \<lparr>page = 1\<rparr> (fetched 3)) = []"
  by (simp add: ItemsTable_def ItemsTable_useEffect_def prefetch_effect_def hasNextPage_def
      fetched_def PER_PAGE_def)

text \<open>
  At page \<open>2 ^ 53\<close> the sum \<open>page + 1\<close> rounds back to \<open>page\<close>: the page
  prefetched is the page shown.
\<close>

lemma prefetch_at_two_to_53:
  "prefetched (ItemsTable None \<lparr>page = 9007199254740992\<rparr> (fetched 5)) =
     [getItemsQueryOptions 9007199254740992]"
proof -
  have "js_plus 9007199254740992 1 = 9007199254740992"
    by (simp add: js_plus_def round_to_double_examples)
  then show ?thesis
    by (simp add: ItemsTable_def ItemsTable_useEffect_def prefetch_effect_def hasNextPage_def
        fetched_def PER_PAGE_def)
qed

text \<open>
  C8.  The page is read from the search parameter \<open>page\<close>: a missing parameter
  gives 1, a value that is not a number gives 1, and a number is kept, so every search
  input yields a number.  \<open>setPage\<close> writes the page to the same parameter and
  leaves the other parameters alone, so the page read back is the page written.
\<close>

theorem validateSearch_page:
  "(s ''page'' = None \<longrightarrow> page (validateSearch s) = 1) \<and>
   (\<forall>n. s ''page'' = Some (JNumber n) \<longrightarrow> page (validateSearch s) = n) \<and>
   (\<forall>v. s ''page'' = Some v \<and> (\<forall>n. v \<noteq> JNumber n) \<longrightarrow> page (validateSearch s) = 1) \<and>
   page (validateSearch (setPage p s)) = p \<and>
   (\<forall>k. k \<noteq> ''page'' \<longrightarrow> setPage p s k = s k)"
  by (auto simp: validateSearch_def itemsSearchSchema_parse_def setPage_def
      split: option.splits json.splits)

theorem validateSearch_page_witness:
  "page (validateSearch Map.empty) = 1 \<and>
   page (validateSearch [''page'' \<mapsto> JNumber 3]) = 3 \<and>
   page (validateSearch [''page'' \<mapsto> JString ''abc'']) = 1 \<and>
   page (validateSearch (setPage 4 [''page'' \<mapsto> JNull])) = 4 \<and>
   setPage 4 [''q'' \<mapsto> JString ''x''] ''q'' = Some (JString ''x'')"
  using validateSearch_page [of Map.empty 4]
        validateSearch_page [of "[''page'' \<mapsto> JNumber 3]" 4]
        validateSearch_page [of "[''page'' \<mapsto> JString ''abc'']" 4]
        validateSearch_page [of "[''page'' \<mapsto> JNull]" 4]
        validateSearch_page [of "[''q'' \<mapsto> JString ''x'']" 4]
  by simp

section \<open>Mutations and the cache\<close>

text \<open>
  C3, as amended.  The create-item mutation invalidates the \<open>items\<close> key on every
  settlement, whether the write succeeded or failed.  The append-log mutation
  invalidates the item's log key, and the move-item mutation the item's log key and
  the key made of \<open>items\<close> and the search object that \<open>Route.useSearch()\<close>
  returned, when the write succeeded; when the write failed they hand the error to
  \<open>handleError\<close> and invalidate nothing.
\<close>

theorem invalidation_on_settlement:
  "invalidated (settle AddItem_mutation out w) = invalidated w @ [[KString ''items'']] \<and>
   invalidated (settle (sendLogMutation item) Fulfilled v) =
     invalidated v @ [[KString ''item_logs'', KString item]] \<and>
   invalidated (settle (sendLogMutation item) (Failed err) v) = invalidated v \<and>
   handled (settle (sendLogMutation item) (Failed err) v) = handled v @ [err] \<and>
   invalidated (settle (moveItemMutation item currentPage) Fulfilled v) =
     invalidated v @ [[KString ''item_logs'', KString item],
                      [KString ''items'', KObject currentPage]] \<and>
   invalidated (settle (moveItemMutation item currentPage) (Failed err) v) = invalidated v \<and>
   handled (settle (moveItemMutation item currentPage) (Failed err) v) = handled v @ [err]"
  by (cases out)
     (simp_all add: settle_def AddItem_mutation_def sendLogMutation_def moveItemMutation_def
        invalidateQueries_def showToast_def handleError_def console_log_def reset_def
        onClose_def)

theorem invalidation_on_settlement_witness:
  "invalidated (settle AddItem_mutation (Failed (ApiError 422)) (form_onSubmit form0)) =
     [[KString ''items'']] \<and>
   invalidated (settle (sendLogMutation ''item-1'') Fulfilled
                  (SendLog_onClick ''item-1'' details0)) =
     [[KString ''item_logs'', KString ''item-1'']] \<and>
   handled (settle (moveItemMutation ''item-1'' [''page'' \<mapsto> JNumber 2])
              (Failed (ApiError 422))
              (MoveItem_onClick ''item-1'' [''page'' \<mapsto> JNumber 2] details0)) =
     [ApiError 422]"
proof -
  note t = invalidation_on_settlement [where out = "Failed (ApiError 422)"
      and w = "form_onSubmit form0" and item = "''item-1''"
      and v = "SendLog_onClick ''item-1'' details0"
      and currentPage = "[''page'' \<mapsto> JNumber 2]" and err = "ApiError 422"]
  note u = invalidation_on_settlement [where out = "Failed (ApiError 422)"
      and w = "form_onSubmit form0" and item = "''item-1''"
      and v = "MoveItem_onClick ''item-1'' [''page'' \<mapsto> JNumber 2] details0"
      and currentPage = "[''page'' \<mapsto> JNumber 2]" and err = "ApiError 422"]
  have a: "invalidated (settle AddItem_mutation (Failed (ApiError 422))
             (form_onSubmit form0)) = invalidated (form_onSubmit form0) @ [[KString ''items'']]"
    using t by blast
  have b: "invalidated (settle (sendLogMutation ''item-1'') Fulfilled
             (SendLog_onClick ''item-1'' details0)) =
           invalidated (SendLog_onClick ''item-1'' details0) @
             [[KString ''item_logs'', KString ''item-1'']]"
    using t by blast
  have c: "handled (settle (moveItemMutation ''item-1'' [''page'' \<mapsto> JNumber 2])
             (Failed (ApiError 422))
             (MoveItem_onClick ''item-1'' [''page'' \<mapsto> JNumber 2] details0)) =
           handled (MoveItem_onClick ''item-1'' [''page'' \<mapsto> JNumber 2] details0) @
             [ApiError 422]"
    using u by blast
  have a0: "invalidated (form_onSubmit form0) = []"
    by (simp add: form_onSubmit_def handleSubmit_def validate_title_def onSubmit_def
        mutate_def AddItem_mutation_def form0_def)
  have b0: "invalidated (SendLog_onClick ''item-1'' details0) = []"
    by (simp add: SendLog_onClick_def mutate_def sendLogMutation_def details0_def)
  have c0: "handled (MoveItem_onClick ''item-1'' [''page'' \<mapsto> JNumber 2] details0) = []"
    by (simp add: MoveItem_onClick_def mutate_def moveItemMutation_def details0_def)
  show ?thesis using a b c a0 b0 c0 by simp
qed

text \<open>
  C3 as first stated asks for an invalidation after every settled write.  A log
  message is sent, the request is issued, the server answers with status 500: no query
  key has been invalidated.
\<close>

theorem failed_log_no_invalidation_counterexample:
  "calls (SendLog_onClick ''item-1'' details0) =
     [createItemLog \<lparr>item_id = ''item-1'', message = ''cleaned''\<rparr>] \<and>
   invalidated (settle (sendLogMutation ''item-1'') (Failed (ApiError 500))
                  (SendLog_onClick ''item-1'' details0)) = []"
  by (simp add: SendLog_onClick_def mutate_def settle_def sendLogMutation_def details0_def
      handleError_def console_log_def)

section \<open>Submitting the Add Item form\<close>

text \<open>
  C4.  When the Add Item form is submitted with a title and the request succeeds,
  exactly one request was issued by the submission, the create-item request carrying
  the form's values, and nothing more is issued at settlement; the success toast is
  shown; the fields are back at their defaults (title and description empty, type
  \<open>other\<close>); the modal is closed; and the \<open>items\<close> key is invalidated.
\<close>

theorem AddItem_success:
  assumes "title (form_values w) \<noteq> ''''"
  shows "calls (form_onSubmit w) = calls w @ [createItem (form_values w)] \<and>
         calls (settle AddItem_mutation Fulfilled (form_onSubmit w)) =
           calls w @ [createItem (form_values w)] \<and>
         toasts (settle AddItem_mutation Fulfilled (form_onSubmit w)) =
           toasts w @ [(''Success!'', ''Item created successfully.'', ''success'')] \<and>
         form_values (settle AddItem_mutation Fulfilled (form_onSubmit w)) =
           \<lparr>title = '''', description = '''', type = ''other''\<rparr> \<and>
         \<not> isOpen (settle AddItem_mutation Fulfilled (form_onSubmit w)) \<and>
         invalidated (settle AddItem_mutation Fulfilled (form_onSubmit w)) =
           invalidated w @ [[KString ''items'']]"
  using assms
  by (simp add: form_onSubmit_def handleSubmit_def validate_title_def onSubmit_def mutate_def
      settle_def AddItem_mutation_def showToast_def reset_def onClose_def
      invalidateQueries_def defaultValues_def)

theorem AddItem_success_witness:
  "title (form_values form0) \<noteq> '''' \<and>
   calls (settle AddItem_mutation Fulfilled (form_onSubmit form0)) =
     [createItem \<lparr>title = ''flask'', description = ''50 ml'', type = ''glass''\<rparr>] \<and>
   form_values (settle AddItem_mutation Fulfilled (form_onSubmit form0)) =
     \<lparr>title = '''', description = '''', type = ''other''\<rparr> \<and>
   \<not> isOpen (settle AddItem_mutation Fulfilled (form_onSubmit form0)) \<and>
   invalidated (settle AddItem_mutation Fulfilled (form_onSubmit form0)) =
     [[KString ''items'']]"
proof -
  have h: "title (form_values form0) \<noteq> ''''" by (simp add: form0_def)
  show ?thesis using h AddItem_success [OF h] by (simp add: form0_def)
qed

text \<open>
  C5, as amended.  Submitting the Add Item form with an empty title issues no
  create-item request: the browser's check of the required title field stops the
  submission before the form's handler runs, and the form is left as it was.  The
  field error \<open>Title is required.\<close> is set on the title field when the empty field
  loses focus, which issues no request either.
\<close>

theorem AddItem_empty_title:
  assumes "title (form_values w) = ''''"
  shows "form_requestSubmit w = w \<and>
         Save_click w = w \<and>
         calls (Save_click w) = calls w \<and>
         title_error (title_onBlur w) = Some ''Title is required.'' \<and>
         calls (title_onBlur w) = calls w"
  using assms
  by (simp add: Save_click_def form_requestSubmit_def title_onBlur_def validate_title_def)

theorem AddItem_empty_title_witness:
  "title (form_values (form0\<lparr>form_values := defaultValues\<rparr>)) = '''' \<and>
   calls (Save_click (form0\<lparr>form_values := defaultValues\<rparr>)) = [] \<and>
   title_error (title_onBlur (form0\<lparr>form_values := defaultValues\<rparr>)) =
     Some ''Title is required.''"
proof -
  have h: "title (form_values (form0\<lparr>form_values := defaultValues\<rparr>)) = ''''"
    by (simp add: defaultValues_def)
  note t = AddItem_empty_title [OF h]
  have a: "calls (Save_click (form0\<lparr>form_values := defaultValues\<rparr>)) =
           calls (form0\<lparr>form_values := defaultValues\<rparr>)"
    using t by blast
  have b: "title_error (title_onBlur (form0\<lparr>form_values := defaultValues\<rparr>)) =
           Some ''Title is required.''"
    using t by blast
  have c: "calls (form0\<lparr>form_values := defaultValues\<rparr>) = []"
    by (simp add: form0_def)
  show ?thesis using h a b c by simp
qed

text \<open>
  C5 as first stated has the submission surface the field error.  The form is opened
  and Save is clicked with the title still empty: no request is issued, and the title
  field has no error.
\<close>

theorem empty_title_submit_no_field_error_counterexample:
  "title (form_values (form0\<lparr>form_values := defaultValues\<rparr>)) = '''' \<and>
   calls (Save_click (form0\<lparr>form_values := defaultValues\<rparr>)) = [] \<and>
   title_error (Save_click (form0\<lparr>form_values := defaultValues\<rparr>)) = None"
  by (simp add: Save_click_def form_requestSubmit_def form0_def defaultValues_def)

text \<open>
  The guard of the submit button: while \<open>isSubmitting\<close> is true a click does
  nothing.
\<close>

lemma Save_click_disabled: "isSubmitting w \<Longrightarrow> Save_click w = w"
  by (simp add: Save_click_def)

text \<open>
  C6.  The property: while a submission of the Add Item form is in flight the submit
  control is disabled, so that two submissions while the first is pending give one
  create-item request.  The code on that input: the form is filled in and the Save
  button is clicked twice, with no response arriving in between.  After the first
  click the request is pending and \<open>isSubmitting\<close> is already false again, so
  the button is enabled, and the second click issues a second create-item request.
\<close>

theorem double_submit_two_calls:
  "\<not> isSubmitting (Save_click form0) \<and>
   calls (Save_click form0) =
     [createItem \<lparr>title = ''flask'', description = ''50 ml'', type = ''glass''\<rparr>] \<and>
   calls (Save_click (Save_click form0)) =
     [createItem \<lparr>title = ''flask'', description = ''50 ml'', type = ''glass''\<rparr>,
      createItem \<lparr>title = ''flask'', description = ''50 ml'', type = ''glass''\<rparr>]"
  by (simp add: Save_click_def form_requestSubmit_def form_onSubmit_def handleSubmit_def
      validate_title_def onSubmit_def mutate_def AddItem_mutation_def form0_def)

section \<open>The log composer\<close>

text \<open>
  C9.  In the log composer, a key-down of Enter with the Ctrl key held does exactly what
  a click on the send button does: in every state of the view both run
  \<open>sendLogMutation.mutate()\<close>, leave the same state behind, and lead to the same
  state whatever the outcome of the request.
\<close>

theorem ctrl_enter_same_as_click:
  assumes "key e = ''Enter''" and "ctrlKey e"
  shows "Textarea_onKeyDown item e w = SendLog_onClick item w \<and>
         Textarea_onKeyDown item e w = mutate (sendLogMutation item) () w \<and>
         settle (sendLogMutation item) out (Textarea_onKeyDown item e w) =
           settle (sendLogMutation item) out (SendLog_onClick item w)"
  using assms by (simp add: Textarea_onKeyDown_def SendLog_onClick_def)

theorem ctrl_enter_same_as_click_witness:
  "key ctrl_enter = ''Enter'' \<and> ctrlKey ctrl_enter \<and>
   Textarea_onKeyDown ''item-1'' ctrl_enter details0 = SendLog_onClick ''item-1'' details0 \<and>
   calls (SendLog_onClick ''item-1'' details0) =
     [createItemLog \<lparr>item_id = ''item-1'', message = ''cleaned''\<rparr>]"
proof -
  have k: "key ctrl_enter = ''Enter''" and c: "ctrlKey ctrl_enter"
    by (simp_all add: ctrl_enter_def)
  have "calls (SendLog_onClick ''item-1'' details0) =
          [createItemLog \<lparr>item_id = ''item-1'', message = ''cleaned''\<rparr>]"
    by (simp add: SendLog_onClick_def mutate_def sendLogMutation_def details0_def)
  with k c ctrl_enter_same_as_click [OF k c, of "''item-1''" details0] show ?thesis
    by blast
qed

text \<open>
  C10.  If the message of the composer is \<open>null\<close> or the empty string, sending
  the log, by the button or by Ctrl+Enter, issues no request: the mutation settles
  as a failure with the error \<open>No log message provided\<close>, which is handed to
  \<open>handleError\<close>, and no query key is invalidated.
\<close>

theorem empty_message_no_request:
  assumes "newLogMessage w = None \<or> newLogMessage w = Some ''''"
    and "key e = ''Enter''" and "ctrlKey e"
  shows "SendLog_onClick item w =
           settle (sendLogMutation item) (Failed (Error ''No log message provided'')) w \<and>
         Textarea_onKeyDown item e w =
           settle (sendLogMutation item) (Failed (Error ''No log message provided'')) w \<and>
         calls (SendLog_onClick item w) = calls w \<and>
         calls (Textarea_onKeyDown item e w) = calls w \<and>
         invalidated (SendLog_onClick item w) = invalidated w \<and>
         invalidated (Textarea_onKeyDown item e w) = invalidated w \<and>
         handled (SendLog_onClick item w) = handled w @ [Error ''No log message provided''] \<and>
         handled (Textarea_onKeyDown item e w) =
           handled w @ [Error ''No log message provided'']"
  using assms
  by (auto simp: Textarea_onKeyDown_def SendLog_onClick_def mutate_def settle_def
      sendLogMutation_def handleError_def console_log_def)

theorem empty_message_no_request_witness:
  "(newLogMessage (details0\<lparr>newLogMessage := None\<rparr>) = None) \<and>
   calls (SendLog_onClick ''item-1'' (details0\<lparr>newLogMessage := None\<rparr>)) = [] \<and>
   calls (Textarea_onKeyDown ''item-1'' ctrl_enter (details0\<lparr>newLogMessage := Some ''''\<rparr>)) = [] \<and>
   handled (SendLog_onClick ''item-1'' (details0\<lparr>newLogMessage := None\<rparr>)) =
     [Error ''No log message provided'']"
proof -
  have k: "key ctrl_enter = ''Enter''" and c: "ctrlKey ctrl_enter"
    by (simp_all add: ctrl_enter_def)
  have n: "newLogMessage (details0\<lparr>newLogMessage := None\<rparr>) = None \<or>
           newLogMessage (details0\<lparr>newLogMessage := None\<rparr>) = Some ''''" by simp
  have m: "newLogMessage (details0\<lparr>newLogMessage := Some ''''\<rparr>) = None \<or>
           newLogMessage (details0\<lparr>newLogMessage := Some ''''\<rparr>) = Some ''''" by simp
  note t1 = empty_message_no_request [OF n k c, of "''item-1''"]
  note t2 = empty_message_no_request [OF m k c, of "''item-1''"]
  have a: "calls (SendLog_onClick ''item-1'' (details0\<lparr>newLogMessage := None\<rparr>)) =
           calls (details0\<lparr>newLogMessage := None\<rparr>)"
    using t1 by blast
  have b: "calls (Textarea_onKeyDown ''item-1'' ctrl_enter
                    (details0\<lparr>newLogMessage := Some ''''\<rparr>)) =
           calls (details0\<lparr>newLogMessage := Some ''''\<rparr>)"
    using t2 by blast
  have d: "handled (SendLog_onClick ''item-1'' (details0\<lparr>newLogMessage := None\<rparr>)) =
           handled (details0\<lparr>newLogMessage := None\<rparr>) @
             [Error ''No log message provided'']"
    using t1 by blast
  show ?thesis using a b d by (simp add: details0_def)
qed

end
